theory Spec2Isabelle
  imports Main
begin

section \<open>Time-series feature preprocessing (ludwig/features/timeseries\_feature.py)\<close>

text \<open>
  The module turns a column of delimited numeric strings into a fixed-width matrix of
  float32 cells. The model follows \<^verbatim>\<open>TimeseriesFeatureMixin\<close> method by method.
  What the module imports from outside the sources at hand (the tokenizer registry, numpy's
  conversions to floating point, numba's cuda and the stumpy library) is collected in one
  record of parameters, \<open>libs\<close>; nothing is assumed about them beyond their types.
  The cell type \<open>'v\<close> stands for numpy's float32, \<open>'p\<close> for the numeric type of the
  configured padding value, \<open>'f\<close> for the floats of the matrix profile.
\<close>

subsection \<open>Errors\<close>

datatype error =
    RegistryError            \<comment> \<open>\<^verbatim>\<open>get_from_registry\<close>: the tokenizer name is not registered\<close>
  | FloatConversionError     \<comment> \<open>\<^verbatim>\<open>np.array(tokenized).astype(np.float32)\<close> raises ValueError\<close>
  | NegativeDimensionsError  \<comment> \<open>\<^verbatim>\<open>np.full\<close> with a negative number of columns\<close>
  | IndexError               \<comment> \<open>\<^verbatim>\<open>mp[0]\<close> on an empty profile\<close>
  | KeyError string          \<comment> \<open>\<^verbatim>\<open>metadata['max_timeseries_length']\<close> on a missing key\<close>
  | ColumnNotFloatError      \<comment> \<open>\<^verbatim>\<open>Exception('Can't convert column to float')\<close>\<close>
  | StumpyTypeError          \<comment> \<open>TypeError raised inside stumpy, re-raised\<close>
  | StumpyValueError         \<comment> \<open>ValueError raised inside stumpy, re-raised\<close>
  | NaNProfileError          \<comment> \<open>\<^verbatim>\<open>Exception('Matrix profile for the column contains NaN values...')\<close>\<close>

subsection \<open>The imported libraries, as parameters\<close>

type_synonym tokenizer = "string \<Rightarrow> string list"

text \<open>A row of stumpy's result: the profile value and the three index columns.\<close>

type_synonym 'f stumpy_row = "'f \<times> int \<times> int \<times> int"

record ('p, 'v, 'f) libs =
  get_from_registry :: "string \<Rightarrow> tokenizer option"
    \<comment> \<open>\<^verbatim>\<open>get_from_registry(name, tokenizer_registry)()\<close>; \<open>None\<close> when it raises\<close>
  astype_float32 :: "string \<Rightarrow> 'v option"
    \<comment> \<open>one token through \<^verbatim>\<open>.astype(np.float32)\<close>; \<open>None\<close> when it raises ValueError\<close>
  float32 :: "'p \<Rightarrow> 'v"
    \<comment> \<open>the padding number as a float32 cell (\<^verbatim>\<open>np.full(..., dtype=np.float32)\<close>)\<close>
  np_floating :: "string \<Rightarrow> 'f option"
    \<comment> \<open>one column value through \<^verbatim>\<open>np.array(column, dtype=np.floating)\<close>\<close>
  cuda_is_available :: bool
  cuda_device_ids :: "nat list"
  gpu_stump :: "'f list \<Rightarrow> int \<Rightarrow> nat list \<Rightarrow> error + 'f stumpy_row list"
  stump :: "'f list \<Rightarrow> int \<Rightarrow> error + 'f stumpy_row list"
  isnull :: "'f \<Rightarrow> bool"
    \<comment> \<open>\<^verbatim>\<open>pd.isnull\<close> on a float\<close>
  str_float :: "'f \<Rightarrow> string"
    \<comment> \<open>\<^verbatim>\<open>str\<close> on a float\<close>

subsection \<open>Python values and helpers\<close>

text \<open>
  The values a configuration entry such as \<^verbatim>\<open>'matrix_profile'\<close> can hold, with Python's
  truth test.
\<close>

datatype pyval = PyNone | PyBool bool | PyInt int | PyStr string

fun truthy :: "pyval \<Rightarrow> bool" where
  "truthy PyNone = False"
| "truthy (PyBool b) = b"
| "truthy (PyInt i) = (i \<noteq> 0)"
| "truthy (PyStr s) = (s \<noteq> [])"

text \<open>
  A cell of the column handed to \<^verbatim>\<open>build_matrix\<close> is a string or \<^verbatim>\<open>None\<close> (the rows the
  sliding window leaves empty); \<^verbatim>\<open>if ts:\<close> is false for \<^verbatim>\<open>None\<close> and for the empty string.
\<close>

fun truthy_cell :: "string option \<Rightarrow> bool" where
  "truthy_cell None = False"
| "truthy_cell (Some s) = (s \<noteq> [])"

text \<open>
  \<^verbatim>\<open>xs[start:stop]\<close>: a negative bound counts from the end, every bound is clipped to
  the list, and a slice never raises.
\<close>

definition py_slice :: "'a list \<Rightarrow> int \<Rightarrow> int \<Rightarrow> 'a list" where
  "py_slice xs start stop =
     (let n = int (length xs);
          a = (if start < 0 then max (start + n) 0 else min start n);
          b = (if stop < 0 then max (stop + n) 0 else min stop n)
      in take (nat (b - a)) (drop (nat a) xs))"

text \<open>\<^verbatim>\<open>sep.join(parts)\<close>.\<close>

fun join :: "string \<Rightarrow> string list \<Rightarrow> string" where
  "join sep [] = []"
| "join sep [x] = x"
| "join sep (x # y # ys) = x @ sep @ join sep (y # ys)"

subsection \<open>\<^verbatim>\<open>build_matrix\<close>\<close>

text \<open>
  Lines 79--84: the float32 vector of one row. An empty or missing row is \<^verbatim>\<open>[padding_value]\<close>;
  any other row is tokenized and every token converted, which fails when one of them is
  not a number.
\<close>

fun astype_all :: "(string \<Rightarrow> 'v option) \<Rightarrow> string list \<Rightarrow> 'v list option" where
  "astype_all conv [] = Some []"
| "astype_all conv (t # ts) =
     (case conv t of
        None \<Rightarrow> None
      | Some v \<Rightarrow> (case astype_all conv ts of None \<Rightarrow> None | Some vs \<Rightarrow> Some (v # vs)))"

definition ts_vector ::
  "('p, 'v, 'f) libs \<Rightarrow> tokenizer \<Rightarrow> 'p \<Rightarrow> string option \<Rightarrow> 'v list option"
where
  "ts_vector L tok padding_value ts =
     (if truthy_cell ts then astype_all (astype_float32 L) (tok (the ts))
      else Some [float32 L padding_value])"

text \<open>
  The first loop (lines 78--88) collects the vectors and the longest length seen; that
  maximum only feeds a debug message and is overwritten by \<^verbatim>\<open>length_limit\<close> on line 98.
\<close>

fun tokenize_loop ::
  "('p, 'v, 'f) libs \<Rightarrow> tokenizer \<Rightarrow> 'p \<Rightarrow> string option list \<Rightarrow> nat \<times> 'v list list
     \<Rightarrow> error + (nat \<times> 'v list list)"
where
  "tokenize_loop L tok padding_value [] st = Inr st"
| "tokenize_loop L tok padding_value (ts # rest) (max_length, ts_vectors) =
     (case ts_vector L tok padding_value ts of
        None \<Rightarrow> Inl FloatConversionError
      | Some v \<Rightarrow>
          tokenize_loop L tok padding_value rest
            (if length v > max_length then length v else max_length, ts_vectors @ [v]))"

text \<open>
  Lines 105--109, one row: the slice assignment \<^verbatim>\<open>row[:limit] = vector[:limit]\<close>, or
  \<^verbatim>\<open>row[max_length - limit:] = vector[:limit]\<close> for any padding other than \<^verbatim>\<open>'right'\<close>.
\<close>

definition write_row :: "string \<Rightarrow> nat \<Rightarrow> 'v list \<Rightarrow> 'v list \<Rightarrow> 'v list" where
  "write_row padding max_length vector row =
     (let limit = min (length vector) max_length
      in if padding = ''right'' then take limit vector @ drop limit row
         else take (max_length - limit) row @ take limit vector)"

text \<open>The second loop (lines 104--109), over \<^verbatim>\<open>enumerate(ts_vectors)\<close>.\<close>

fun fill_loop :: "string \<Rightarrow> nat \<Rightarrow> nat \<Rightarrow> 'v list list \<Rightarrow> 'v list list \<Rightarrow> 'v list list" where
  "fill_loop padding max_length i [] timeseries_matrix = timeseries_matrix"
| "fill_loop padding max_length i (vector # rest) timeseries_matrix =
     fill_loop padding max_length (Suc i) rest
       (timeseries_matrix[i := write_row padding max_length vector (timeseries_matrix ! i)])"

definition build_matrix ::
  "('p, 'v, 'f) libs \<Rightarrow> string option list \<Rightarrow> string \<Rightarrow> int \<Rightarrow> 'p \<Rightarrow> string
     \<Rightarrow> error + 'v list list"
where
  "build_matrix L timeseries tokenizer_name length_limit padding_value padding =
     (case get_from_registry L tokenizer_name of
        None \<Rightarrow> Inl RegistryError
      | Some tok \<Rightarrow>
          (case tokenize_loop L tok padding_value timeseries (0, []) of
             Inl e \<Rightarrow> Inl e
           | Inr (max_length, ts_vectors) \<Rightarrow>
               if length_limit < 0 then Inl NegativeDimensionsError
               else
                 (let max_length = nat length_limit;
                      timeseries_matrix =
                        replicate (length timeseries) (replicate max_length (float32 L padding_value))
                  in Inr (fill_loop padding max_length 0 ts_vectors timeseries_matrix))))"

subsection \<open>Configuration\<close>

text \<open>
  \<^verbatim>\<open>preprocessing_parameters\<close> is a dictionary; the entries of \<^verbatim>\<open>preprocessing_defaults\<close>
  are read with \<^verbatim>\<open>[...]\<close> and have the types of their defaults, the two optional entries
  are read with \<^verbatim>\<open>.get\<close> and are \<open>None\<close> when the key is absent.
\<close>

record 'p preprocessing_parameters =
  timeseries_length_limit :: int
  padding_value :: 'p
  padding :: string
  tokenizer :: string
  window_size :: "int option"
  matrix_profile :: "pyval option"

subsection \<open>\<^verbatim>\<open>get_feature_meta\<close>\<close>

text \<open>The loop of lines 53--56: the running maximum of the tokenized lengths.\<close>

fun max_length_loop :: "tokenizer \<Rightarrow> string list \<Rightarrow> int \<Rightarrow> int" where
  "max_length_loop tok [] max_length = max_length"
| "max_length_loop tok (timeseries # column) max_length =
     (let processed_line = tok timeseries
      in max_length_loop tok column (max max_length (int (length processed_line))))"

definition get_feature_meta ::
  "('p, 'v, 'f) libs \<Rightarrow> string list \<Rightarrow> 'p preprocessing_parameters \<Rightarrow> error + (string \<rightharpoonup> int)"
where
  "get_feature_meta L column params =
     (case get_from_registry L (tokenizer params) of
        None \<Rightarrow> Inl RegistryError
      | Some tok \<Rightarrow>
          (let max_length = max_length_loop tok column 0;
               max_length = min (timeseries_length_limit params) max_length
           in Inr [''max_timeseries_length'' \<mapsto> max_length]))"

subsection \<open>\<^verbatim>\<open>build_stumpy_mp\<close>\<close>

text \<open>
  The column is converted to floats as a whole (a ValueError becomes the exception
  \<^verbatim>\<open>'Can't convert column to float'\<close>), then stumpy computes the profile on the GPU when
  cuda is available and on the CPU otherwise. The two handlers print and re-raise, so an
  error of stumpy is the error of the call.
\<close>

definition build_stumpy_mp ::
  "('p, 'v, 'f) libs \<Rightarrow> string list \<Rightarrow> int \<Rightarrow> error + 'f stumpy_row list"
where
  "build_stumpy_mp L column seq_length =
     (case astype_all (np_floating L) column of
        None \<Rightarrow> Inl ColumnNotFloatError
      | Some old_data \<Rightarrow>
          if cuda_is_available L
          then (let gpu_device_ids = cuda_device_ids L
                in gpu_stump L old_data seq_length gpu_device_ids)
          else stump L old_data seq_length)"

subsection \<open>\<^verbatim>\<open>add_timeseries_matrix_profile\<close>\<close>

text \<open>
  The profile \<^verbatim>\<open>mp\<close> holds floats (the first column of stumpy's result) or the strings of
  the column itself; \<^verbatim>\<open>str\<close> and \<^verbatim>\<open>pd.isnull\<close> act on either. A string is never null.
\<close>

datatype 'f profile_value = Str string | Flt 'f

fun str :: "('p, 'v, 'f) libs \<Rightarrow> 'f profile_value \<Rightarrow> string" where
  "str L (Str s) = s"
| "str L (Flt x) = str_float L x"

fun pd_isnull :: "('p, 'v, 'f) libs \<Rightarrow> 'f profile_value \<Rightarrow> bool" where
  "pd_isnull L (Str s) = False"
| "pd_isnull L (Flt x) = isnull L x"

text \<open>
  The calls into the matrix-profile computation are recorded, so that a statement can say
  whether it was invoked.
\<close>

datatype call = Call_build_stumpy_mp "string list" int

text \<open>
  \<^verbatim>\<open>preprocessing_parameters.get('matrix_profile')\<close> as a condition: the key is present
  and its value is truthy.
\<close>

definition matrix_profile_enabled :: "'p preprocessing_parameters \<Rightarrow> bool" where
  "matrix_profile_enabled params =
     (case matrix_profile params of None \<Rightarrow> False | Some v \<Rightarrow> truthy v)"

text \<open>
  Lines 195--212, the method from the profile \<^verbatim>\<open>mp\<close> on. \<^verbatim>\<open>[x] * n\<close> is empty for
  \<open>n \<le> 0\<close>; \<^verbatim>\<open>range(a, b)\<close> is \<open>[a..b - 1]\<close>; \<^verbatim>\<open>mp[0]\<close> raises on an empty profile.
\<close>

definition sliding_windows ::
  "('p, 'v, 'f) libs \<Rightarrow> 'f profile_value list \<Rightarrow> string list \<Rightarrow> int
     \<Rightarrow> error + string option list"
where
  "sliding_windows L mp column seq_length =
     (let window_pad_length = seq_length - 1
      in (case mp of
            [] \<Rightarrow> Inl IndexError
          | backfill_with # _ \<Rightarrow>
              (let window_pad = replicate (nat window_pad_length) backfill_with;
                   matrix_profile = window_pad @ mp
               in if list_ex (pd_isnull L) matrix_profile then Inl NaNProfileError
                  else
                    (let window_data = replicate (nat window_pad_length) None
                     in Inr (window_data @
                             map (\<lambda>index.
                                    Some (join '' ''
                                      (map (str L)
                                         (py_slice matrix_profile
                                            (index - window_pad_length) (index + 1)))))
                                 [window_pad_length..int (length column) - 1])))))"

text \<open>
  Lines 189--193 choose the profile: the first column of stumpy's result, or the column
  itself. The result pairs the recorded calls with the list of windows (or the error
  raised).
\<close>

definition add_timeseries_matrix_profile ::
  "('p, 'v, 'f) libs \<Rightarrow> string list \<Rightarrow> int \<Rightarrow> 'p preprocessing_parameters
     \<Rightarrow> call list \<times> (error + string option list)"
where
  "add_timeseries_matrix_profile L column seq_length params =
     (if matrix_profile_enabled params
      then ([Call_build_stumpy_mp column seq_length],
            (case build_stumpy_mp L column seq_length of
               Inl e \<Rightarrow> Inl e
             | Inr stumpy_mp \<Rightarrow>
                 (let mp = map (\<lambda>row. Flt (fst row)) stumpy_mp
                  in sliding_windows L mp column seq_length)))
      else ([], (let mp = map Str column in sliding_windows L mp column seq_length)))"

subsection \<open>\<^verbatim>\<open>feature_data\<close>\<close>

text \<open>
  \<^verbatim>\<open>metadata\<close> and \<^verbatim>\<open>global_preprocessing_parameters\<close> are dictionaries the method
  updates in place; the model returns them, updated, beside the matrix. An exception leaves
  both as they were, since the two assignments are the last statements.
\<close>

definition feature_data ::
  "('p, 'v, 'f) libs \<Rightarrow> string list \<Rightarrow> (string \<rightharpoonup> int) \<Rightarrow> 'p preprocessing_parameters
     \<Rightarrow> (string \<rightharpoonup> int)
     \<Rightarrow> error + ('v list list \<times> (string \<rightharpoonup> int) \<times> (string \<rightharpoonup> int))"
where
  "feature_data L column metadata params global_preprocessing_parameters =
     (let max_timeseries_length =
            (case metadata ''max_timeseries_length'' of None \<Rightarrow> 1 | Some v \<Rightarrow> v);
          seq_length = (case window_size params of None \<Rightarrow> 1 | Some w \<Rightarrow> w)
      in (case snd (add_timeseries_matrix_profile L column seq_length params) of
            Inl e \<Rightarrow> Inl e
          | Inr column' \<Rightarrow>
              (let offset = seq_length - 1;
                   max_timeseries_length =
                     (if max_timeseries_length < seq_length then seq_length
                      else max_timeseries_length)
               in (case metadata ''max_timeseries_length'' of
                     None \<Rightarrow> Inl (KeyError ''max_timeseries_length'')
                   | Some length_limit \<Rightarrow>
                       (case build_matrix L column' (tokenizer params) length_limit
                               (padding_value params) (padding params) of
                          Inl e \<Rightarrow> Inl e
                        | Inr timeseries_data \<Rightarrow>
                            Inr (timeseries_data,
                                 metadata(''max_timeseries_length'' \<mapsto> max_timeseries_length),
                                 global_preprocessing_parameters(''offset'' \<mapsto> offset)))))))"

subsection \<open>A concrete instance of the libraries\<close>

text \<open>
  For evaluating the methods on concrete columns: a tokenizer that splits at spaces,
  decimal numerals as numbers (integers stand for the floats), no GPU, and in place of
  stumpy a stand-in that returns one row for each of the \<open>n - m + 1\<close> window positions.
  The instance is an example only; every theorem below is about arbitrary libraries.
\<close>

fun split_spaces :: "string \<Rightarrow> string \<Rightarrow> string list" where
  "split_spaces cur [] = (if cur = [] then [] else [cur])"
| "split_spaces cur (c # cs) =
     (if c = CHR '' '' then (if cur = [] then split_spaces [] cs else cur # split_spaces [] cs)
      else split_spaces (cur @ [c]) cs)"

definition digit_of :: "char \<Rightarrow> int option" where
  "digit_of c = map_of (zip ''0123456789'' [0, 1, 2, 3, 4, 5, 6, 7, 8, 9]) c"

fun decimal_acc :: "int \<Rightarrow> string \<Rightarrow> int option" where
  "decimal_acc acc [] = Some acc"
| "decimal_acc acc (c # cs) =
     (case digit_of c of None \<Rightarrow> None | Some d \<Rightarrow> decimal_acc (10 * acc + d) cs)"

definition decimal :: "string \<Rightarrow> int option" where
  "decimal s = (if s = [] then None else decimal_acc 0 s)"

definition example_stump :: "int list \<Rightarrow> int \<Rightarrow> error + int stumpy_row list" where
  "example_stump data m =
     (if m < 1 \<or> int (length data) < m then Inl StumpyValueError
      else Inr (map (\<lambda>x. (x, 0, 0, 0)) (take (length data + 1 - nat m) data)))"

definition example_libs :: "(int, int, int) libs" where
  "example_libs =
     \<lparr> get_from_registry = (\<lambda>name. if name = ''space'' then Some (split_spaces []) else None),
       astype_float32 = decimal,
       float32 = (\<lambda>p. p),
       np_floating = decimal,
       cuda_is_available = False,
       cuda_device_ids = [],
       gpu_stump = (\<lambda>data m ids. Inl StumpyValueError),
       stump = example_stump,
       isnull = (\<lambda>x. False),
       str_float = (\<lambda>x. if 0 \<le> x \<and> x < 10 then [''0123456789'' ! nat x] else ''?'') \<rparr>"

definition example_params :: "int preprocessing_parameters" where
  "example_params =
     \<lparr> timeseries_length_limit = 256, padding_value = 0, padding = ''right'',
       tokenizer = ''space'', window_size = None, matrix_profile = None \<rparr>"

section \<open>Evaluating the example instance\<close>

lemma example_params_fields:
  "timeseries_length_limit example_params = 256"
  "padding_value example_params = 0"
  "padding example_params = ''right''"
  "tokenizer example_params = ''space''"
  "window_size example_params = None"
  "matrix_profile example_params = None"
  by (simp_all add: example_params_def)

lemma eval_windows_2:
  "snd (add_timeseries_matrix_profile example_libs [''1'', ''2'', ''3''] 2
          (example_params\<lparr>window_size := Some 2\<rparr>)) = Inr [None, Some ''1 1'', Some ''1 2'']"
  by code_simp


lemma eval_matrix_1:
  "build_matrix example_libs [None, Some ''1 1'', Some ''1 2''] ''space'' 1 0 ''right''
     = Inr [[0], [1], [1]]"
  by code_simp

section \<open>Properties of \<^verbatim>\<open>build_matrix\<close>\<close>

subsection \<open>The two loops\<close>

lemma tokenize_loop_total:
  "\<forall>ts\<in>set xs. ts_vector L tok pv ts \<noteq> None \<Longrightarrow>
   \<exists>m. tokenize_loop L tok pv xs (m0, acc) =
         Inr (m, acc @ map (\<lambda>ts. the (ts_vector L tok pv ts)) xs)"
proof (induction xs arbitrary: m0 acc)
  case Nil
  then show ?case by simp
next
  case (Cons ts rest)
  then obtain v where v: "ts_vector L tok pv ts = Some v" by auto
  from Cons.prems have "\<forall>t\<in>set rest. ts_vector L tok pv t \<noteq> None" by simp
  from Cons.IH [OF this, of "if length v > m0 then length v else m0" "acc @ [v]"]
  show ?case using v by simp
qed

lemma tokenize_loop_Inr:
  "tokenize_loop L tok pv xs (m0, acc) = Inr (m, vs) \<Longrightarrow>
   (\<forall>ts\<in>set xs. ts_vector L tok pv ts \<noteq> None)"
proof (induction xs arbitrary: m0 acc)
  case Nil
  then show ?case by simp
next
  case (Cons ts rest)
  then show ?case by (auto split: option.splits)
qed

lemma fill_loop_length:
  "length (fill_loop side n i vs M) = length M"
  by (induction vs arbitrary: i M) simp_all

lemma fill_loop_nth:
  "i + length vs \<le> length M \<Longrightarrow> k < length M \<Longrightarrow>
   fill_loop side n i vs M ! k =
     (if i \<le> k \<and> k < i + length vs then write_row side n (vs ! (k - i)) (M ! k) else M ! k)"
proof (induction vs arbitrary: i M)
  case Nil
  then show ?case by auto
next
  case (Cons v rest)
  let ?M = "M[i := write_row side n v (M ! i)]"
  have "Suc i + length rest \<le> length ?M" "k < length ?M" using Cons.prems by simp_all
  from Cons.IH [OF this]
  show ?case using Cons.prems by (auto simp: nth_list_update nth_Cons' Suc_diff_le)
qed

lemma fill_loop_replicate:
  assumes "length vs = r"
  shows "fill_loop side n 0 vs (replicate r row) = map (\<lambda>v. write_row side n v row) vs"
proof (rule nth_equalityI)
  show "length (fill_loop side n 0 vs (replicate r row)) = length (map (\<lambda>v. write_row side n v row) vs)"
    using assms by (simp add: fill_loop_length)
next
  fix k assume "k < length (fill_loop side n 0 vs (replicate r row))"
  then have k: "k < r" by (simp add: fill_loop_length)
  then show "fill_loop side n 0 vs (replicate r row) ! k = map (\<lambda>v. write_row side n v row) vs ! k"
    using assms by (simp add: fill_loop_nth)
qed

lemma build_matrix_rows:
  assumes "get_from_registry L name = Some tok" and "0 \<le> length_limit"
    and "\<forall>ts\<in>set timeseries. ts_vector L tok pv ts \<noteq> None"
  shows "build_matrix L timeseries name length_limit pv side =
           Inr (map (\<lambda>ts. write_row side (nat length_limit) (the (ts_vector L tok pv ts))
                            (replicate (nat length_limit) (float32 L pv))) timeseries)"
proof -
  from tokenize_loop_total [OF assms(3), of 0 "[]"]
  obtain m where "tokenize_loop L tok pv timeseries (0, []) =
      Inr (m, map (\<lambda>ts. the (ts_vector L tok pv ts)) timeseries)" by auto
  then show ?thesis
    using assms(1,2) by (simp add: build_matrix_def fill_loop_replicate comp_def Let_def)
qed

lemma build_matrix_Inr:
  assumes "build_matrix L timeseries name length_limit pv side = Inr M"
  shows "\<exists>tok. get_from_registry L name = Some tok \<and> 0 \<le> length_limit \<and>
           (\<forall>ts\<in>set timeseries. ts_vector L tok pv ts \<noteq> None)"
  using assms
  by (auto simp: build_matrix_def split: option.splits sum.splits if_splits
      dest: tokenize_loop_Inr)

lemma write_row_length:
  "length row = n \<Longrightarrow> length (write_row side n v row) = n"
  by (auto simp: write_row_def Let_def)

lemma write_row_replicate:
  "write_row side n v (replicate n x) =
     (if side = ''right'' then take (min (length v) n) v @ replicate (n - min (length v) n) x
      else replicate (n - min (length v) n) x @ take (min (length v) n) v)"
  by (simp add: write_row_def Let_def)

lemma write_row_padding:
  "write_row side n [x] (replicate n x) = replicate n x"
proof (cases n)
  case 0
  then show ?thesis by (simp add: write_row_def)
next
  case (Suc k)
  have "take k (replicate (Suc k) x) @ [x] = replicate (Suc k) x"
    unfolding take_replicate by (simp add: replicate_append_same)
  moreover have "[x] @ drop 1 (replicate (Suc k) x) = replicate (Suc k) x"
    by simp
  ultimately show ?thesis
    using Suc by (simp add: write_row_def del: replicate_Suc)
qed


subsection \<open>Shape and padding\<close>

text \<open>
  Claim C1. Given a registered tokenizer and rows whose tokens are all numbers,
  \<^verbatim>\<open>build_matrix\<close> returns, for every \<open>length_limit > 0\<close> and every padding value, a matrix
  with one row per entry of \<open>timeseries\<close> and exactly \<open>length_limit\<close> columns, whatever
  the lengths of the tokenized rows; every cell of row \<open>i\<close> that is not written from the
  row's vector (the cells from \<open>limit\<close> on under right padding, the cells before
  \<open>length_limit - limit\<close> otherwise) holds the padding value as a float32.
\<close>

theorem build_matrix_fixed_width:
  assumes "get_from_registry L name = Some tok"
    and "0 < length_limit"
    and "\<forall>ts\<in>set timeseries. ts_vector L tok pv ts \<noteq> None"
  shows "\<exists>M. build_matrix L timeseries name length_limit pv side = Inr M
           \<and> length M = length timeseries
           \<and> (\<forall>row\<in>set M. length row = nat length_limit)
           \<and> (\<forall>i<length timeseries. \<forall>j<nat length_limit.
                 (let limit = min (length (the (ts_vector L tok pv (timeseries ! i))))
                                  (nat length_limit)
                  in (if side = ''right'' then limit \<le> j else j < nat length_limit - limit)
                     \<longrightarrow> M ! i ! j = float32 L pv))"
proof -
  let ?n = "nat length_limit"
  let ?row = "\<lambda>ts. write_row side ?n (the (ts_vector L tok pv ts)) (replicate ?n (float32 L pv))"
  have M: "build_matrix L timeseries name length_limit pv side = Inr (map ?row timeseries)"
    using assms by (intro build_matrix_rows) simp_all
  have len: "\<forall>row\<in>set (map ?row timeseries). length row = ?n"
    by (simp add: write_row_length)
  have cells: "map ?row timeseries ! i ! j = float32 L pv"
    if "i < length timeseries" "j < ?n"
      "if side = ''right'' then min (length (the (ts_vector L tok pv (timeseries ! i)))) ?n \<le> j
       else j < ?n - min (length (the (ts_vector L tok pv (timeseries ! i)))) ?n"
    for i j
    using that by (auto simp: write_row_replicate nth_append split: if_splits)
  show ?thesis
    unfolding M using len cells by (simp add: Let_def)
qed

theorem build_matrix_fixed_width_witness:
  "\<exists>M. build_matrix example_libs [Some ''1 2 3'', Some ''7'', Some ''4 5 6 7 8''] ''space'' 4 0
          ''right'' = Inr M
     \<and> length M = 3 \<and> list_all (\<lambda>row. length row = 4) M \<and> M ! 0 ! 3 = 0 \<and> M ! 1 ! 2 = 0"
proof -
  let ?ts = "[Some ''1 2 3'', Some ''7'', Some ''4 5 6 7 8'']"
  have h1: "get_from_registry example_libs ''space'' = Some (split_spaces [])"
    by (simp add: example_libs_def)
  have h2: "(0::int) < 4" by simp
  have h3: "\<forall>ts\<in>set ?ts. ts_vector example_libs (split_spaces []) 0 ts \<noteq> None"
    by (simp add: ts_vector_def example_libs_def decimal_def digit_of_def)
  from build_matrix_fixed_width [OF h1 h2 h3, where side = "''right''"]
  obtain M where M: "build_matrix example_libs ?ts ''space'' 4 0 ''right'' = Inr M"
    and len: "length M = length ?ts"
    and width: "\<forall>row\<in>set M. length row = nat 4"
    and cells: "\<forall>i<length ?ts. \<forall>j<nat 4.
       (let limit = min (length (the (ts_vector example_libs (split_spaces []) 0 (?ts ! i)))) (nat 4)
        in (if ''right'' = ''right'' then limit \<le> j else j < nat 4 - limit)
           \<longrightarrow> M ! i ! j = float32 example_libs 0)"
    by blast
  have c03: "M ! 0 ! 3 = 0"
    using cells [rule_format, of 0 3]
    by (simp add: ts_vector_def example_libs_def decimal_def digit_of_def)
  have c12: "M ! 1 ! 2 = 0"
    using cells [rule_format, of 1 2]
    by (simp add: ts_vector_def example_libs_def decimal_def digit_of_def)
  from M len width c03 c12 show ?thesis by (simp add: list_all_iff)
qed

text \<open>
  Claim C6. Under the same conditions, with \<open>limit = min (len vector) length_limit\<close>:
  with padding \<^verbatim>\<open>'right'\<close> the first \<open>limit\<close> elements of the row's vector fill columns
  \<open>0 .. limit - 1\<close>; with any other padding argument they fill the trailing columns
  \<open>length_limit - limit .. length_limit - 1\<close>; and on either side a vector at least as
  long as \<open>length_limit\<close> leaves the row equal to its first \<open>length_limit\<close> elements.
\<close>

theorem build_matrix_padding_side:
  assumes "get_from_registry L name = Some tok"
    and "0 \<le> length_limit"
    and "\<forall>ts\<in>set timeseries. ts_vector L tok pv ts \<noteq> None"
  shows "\<exists>M. build_matrix L timeseries name length_limit pv side = Inr M
           \<and> (\<forall>i<length timeseries.
                 (let vector = the (ts_vector L tok pv (timeseries ! i));
                      limit = min (length vector) (nat length_limit)
                  in (side = ''right'' \<longrightarrow> (\<forall>j<limit. M ! i ! j = vector ! j))
                   \<and> (side \<noteq> ''right'' \<longrightarrow>
                        (\<forall>j<limit. M ! i ! (nat length_limit - limit + j) = vector ! j))
                   \<and> (nat length_limit \<le> length vector \<longrightarrow>
                        M ! i = take (nat length_limit) vector)))"
proof -
  let ?n = "nat length_limit"
  let ?row = "\<lambda>ts. write_row side ?n (the (ts_vector L tok pv ts)) (replicate ?n (float32 L pv))"
  have M: "build_matrix L timeseries name length_limit pv side = Inr (map ?row timeseries)"
    using assms by (intro build_matrix_rows) simp_all
  have right: "?row ts ! j = the (ts_vector L tok pv ts) ! j"
    if "side = ''right''" "j < min (length (the (ts_vector L tok pv ts))) ?n" for ts j
    using that by (simp add: write_row_replicate nth_append)
  have left: "?row ts ! (?n - min (length (the (ts_vector L tok pv ts))) ?n + j)
                = the (ts_vector L tok pv ts) ! j"
    if "side \<noteq> ''right''" "j < min (length (the (ts_vector L tok pv ts))) ?n" for ts j
  proof -
    define m where "m = min (length (the (ts_vector L tok pv ts))) ?n"
    have "(replicate (?n - m) (float32 L pv) @ take m (the (ts_vector L tok pv ts))) ! (?n - m + j)
            = take m (the (ts_vector L tok pv ts)) ! j"
      by (simp add: nth_append)
    also have "\<dots> = the (ts_vector L tok pv ts) ! j"
      using that(2) by (simp add: m_def)
    finally show ?thesis
      using that(1) by (simp add: write_row_replicate m_def)
  qed
  have trunc: "?row ts = take ?n (the (ts_vector L tok pv ts))"
    if "?n \<le> length (the (ts_vector L tok pv ts))" for ts
    using that by (simp add: write_row_replicate min_def)
  show ?thesis
    unfolding M using right left trunc by (simp add: Let_def)
qed

theorem build_matrix_padding_side_witness:
  "\<exists>M. build_matrix example_libs [Some ''1 2'', Some ''4 5 6 7 8''] ''space'' 3 0 ''left'' = Inr M
     \<and> M ! 0 ! 1 = 1 \<and> M ! 0 ! 2 = 2 \<and> M ! 1 = [4, 5, 6]"
proof -
  let ?ts = "[Some ''1 2'', Some ''4 5 6 7 8'']"
  have h1: "get_from_registry example_libs ''space'' = Some (split_spaces [])"
    by (simp add: example_libs_def)
  have h2: "(0::int) \<le> 3" by simp
  have h3: "\<forall>ts\<in>set ?ts. ts_vector example_libs (split_spaces []) 0 ts \<noteq> None"
    by (simp add: ts_vector_def example_libs_def decimal_def digit_of_def)
  have v0: "ts_vector example_libs (split_spaces []) 0 (Some ''1 2'') = Some [1, 2]"
    by (simp add: ts_vector_def example_libs_def decimal_def digit_of_def)
  have v1: "ts_vector example_libs (split_spaces []) 0 (Some ''4 5 6 7 8'') = Some [4, 5, 6, 7, 8]"
    by (simp add: ts_vector_def example_libs_def decimal_def digit_of_def)
  from build_matrix_padding_side [OF h1 h2 h3, where side = "''left''"]
  obtain M where M: "build_matrix example_libs ?ts ''space'' 3 0 ''left'' = Inr M"
    and rows: "\<forall>i<length ?ts.
         (let vector = the (ts_vector example_libs (split_spaces []) 0 (?ts ! i));
              limit = min (length vector) (nat 3)
          in (''left'' = ''right'' \<longrightarrow> (\<forall>j<limit. M ! i ! j = vector ! j))
           \<and> (''left'' \<noteq> ''right'' \<longrightarrow>
                (\<forall>j<limit. M ! i ! (nat 3 - limit + j) = vector ! j))
           \<and> (nat 3 \<le> length vector \<longrightarrow> M ! i = take (nat 3) vector))"
    by blast
  have r0: "M ! 0 ! 1 = 1 \<and> M ! 0 ! 2 = 2"
  proof -
    have js: "\<forall>j<2. M ! 0 ! (1 + j) = [1, 2 :: int] ! j"
      using rows [rule_format, of 0] by (simp add: v0 Let_def)
    from js [rule_format, of 0] js [rule_format, of 1] show ?thesis by (simp add: numeral_2_eq_2)
  qed
  have r1: "M ! 1 = [4, 5, 6]"
    using rows [rule_format, of 1] by (simp add: v1 Let_def)
  from M r0 r1 show ?thesis by simp
qed

text \<open>
  Claim C10. A row that is empty (the empty string, or \<^verbatim>\<open>None\<close>) is never tokenized and
  never converted: its vector is \<^verbatim>\<open>[padding_value]\<close>, the matrix row it yields holds the
  padding value in every column, and \<^verbatim>\<open>build_matrix\<close> returns whenever the tokens of the
  non-empty rows are numbers, however many empty rows the column contains.
\<close>

theorem build_matrix_empty_rows:
  assumes "get_from_registry L name = Some tok"
    and "0 \<le> length_limit"
    and "\<forall>ts\<in>set timeseries. truthy_cell ts \<longrightarrow> ts_vector L tok pv ts \<noteq> None"
  shows "\<exists>M. build_matrix L timeseries name length_limit pv side = Inr M
           \<and> (\<forall>i<length timeseries. \<not> truthy_cell (timeseries ! i) \<longrightarrow>
                 ts_vector L tok pv (timeseries ! i) = Some [float32 L pv]
                 \<and> M ! i = replicate (nat length_limit) (float32 L pv))"
proof -
  let ?n = "nat length_limit"
  let ?row = "\<lambda>ts. write_row side ?n (the (ts_vector L tok pv ts)) (replicate ?n (float32 L pv))"
  have empty: "ts_vector L tok pv ts = Some [float32 L pv]" if "\<not> truthy_cell ts" for ts
    using that by (simp add: ts_vector_def)
  with assms(3) have all: "\<forall>ts\<in>set timeseries. ts_vector L tok pv ts \<noteq> None"
    by (metis option.distinct(1))
  have M: "build_matrix L timeseries name length_limit pv side = Inr (map ?row timeseries)"
    using assms(1,2) all by (intro build_matrix_rows) simp_all
  have row: "?row ts = replicate ?n (float32 L pv)" if "\<not> truthy_cell ts" for ts
    by (simp add: empty [OF that] write_row_padding)
  show ?thesis
    unfolding M using empty row by simp
qed

theorem build_matrix_empty_rows_witness:
  "\<exists>M. build_matrix example_libs [Some '''', Some ''1 2'', None] ''space'' 3 7 ''right'' = Inr M
     \<and> M ! 0 = [7, 7, 7] \<and> M ! 2 = [7, 7, 7]"
proof -
  let ?ts = "[Some '''', Some ''1 2'', None]"
  have h1: "get_from_registry example_libs ''space'' = Some (split_spaces [])"
    by (simp add: example_libs_def)
  have h2: "(0::int) \<le> 3" by simp
  have h3: "\<forall>ts\<in>set ?ts. truthy_cell ts \<longrightarrow> ts_vector example_libs (split_spaces []) 7 ts \<noteq> None"
    by (simp add: ts_vector_def example_libs_def decimal_def digit_of_def)
  from build_matrix_empty_rows [OF h1 h2 h3, where side = "''right''"]
  obtain M where M: "build_matrix example_libs ?ts ''space'' 3 7 ''right'' = Inr M"
    and rows: "\<forall>i<length ?ts. \<not> truthy_cell (?ts ! i) \<longrightarrow>
         ts_vector example_libs (split_spaces []) 7 (?ts ! i) = Some [float32 example_libs 7]
         \<and> M ! i = replicate (nat 3) (float32 example_libs 7)"
    by blast
  have r0: "M ! 0 = [7, 7, 7]"
    using rows [rule_format, of 0] by (simp add: example_libs_def eval_nat_numeral)
  have r2: "M ! 2 = [7, 7, 7]"
    using rows [rule_format, of 2] by (simp add: example_libs_def eval_nat_numeral)
  from M r0 r2 show ?thesis by simp
qed

section \<open>Properties of \<^verbatim>\<open>add_timeseries_matrix_profile\<close>\<close>

subsection \<open>Slices and the window list\<close>








subsection \<open>The sliding window\<close>



subsection \<open>The matrix profile is optional\<close>

text \<open>
  Claim C3. The method calls \<^verbatim>\<open>build_stumpy_mp\<close> if and only if
  \<^verbatim>\<open>preprocessing_parameters\<close> holds a truthy \<^verbatim>\<open>'matrix_profile'\<close> entry: in that case it calls
  it once, on the column and the window size, and slides the window over the first column
  of its result; otherwise no call is made and the window slides over the raw column
  values.
\<close>

theorem matrix_profile_is_optional:
  "(fst (add_timeseries_matrix_profile L column seq_length params) \<noteq> []
      \<longleftrightarrow> (\<exists>v. matrix_profile params = Some v \<and> truthy v))
   \<and> ((\<exists>v. matrix_profile params = Some v \<and> truthy v) \<longrightarrow>
        add_timeseries_matrix_profile L column seq_length params =
          ([Call_build_stumpy_mp column seq_length],
           (case build_stumpy_mp L column seq_length of
              Inl e \<Rightarrow> Inl e
            | Inr stumpy_mp \<Rightarrow>
                sliding_windows L (map (\<lambda>row. Flt (fst row)) stumpy_mp) column seq_length)))
   \<and> (\<not> (\<exists>v. matrix_profile params = Some v \<and> truthy v) \<longrightarrow>
        add_timeseries_matrix_profile L column seq_length params =
          ([], sliding_windows L (map Str column) column seq_length))"
  by (cases "matrix_profile params")
    (auto simp: add_timeseries_matrix_profile_def matrix_profile_enabled_def Let_def
      split: sum.splits)

theorem matrix_profile_is_optional_witness:
  "fst (add_timeseries_matrix_profile example_libs [''1'', ''2'', ''3''] 2
          (example_params\<lparr>matrix_profile := Some (PyBool True)\<rparr>))
     = [Call_build_stumpy_mp [''1'', ''2'', ''3''] 2]
   \<and> add_timeseries_matrix_profile example_libs [''1'', ''2'', ''3''] 2
          (example_params\<lparr>matrix_profile := Some (PyInt 0)\<rparr>)
     = ([], Inr [None, Some ''1 1'', Some ''1 2''])
   \<and> add_timeseries_matrix_profile example_libs [''1'', ''2'', ''3''] 2 example_params
     = ([], Inr [None, Some ''1 1'', Some ''1 2''])"
proof -
  let ?col = "[''1'', ''2'', ''3'']"
  have sw: "sliding_windows example_libs (map Str ?col) ?col 2 = Inr [None, Some ''1 1'', Some ''1 2'']"
    by code_simp
  have t: "\<exists>v. matrix_profile (example_params\<lparr>matrix_profile := Some (PyBool True)\<rparr>) = Some v \<and> truthy v"
    by simp
  have z: "\<not> (\<exists>v. matrix_profile (example_params\<lparr>matrix_profile := Some (PyInt 0)\<rparr>) = Some v \<and> truthy v)"
    by simp
  have n: "\<not> (\<exists>v. matrix_profile example_params = Some v \<and> truthy v)"
    by (simp add: example_params_def)
  note on = matrix_profile_is_optional [of example_libs ?col 2
      "example_params\<lparr>matrix_profile := Some (PyBool True)\<rparr>", THEN conjunct2, THEN conjunct1,
      rule_format, OF t]
  note zero = matrix_profile_is_optional [of example_libs ?col 2
      "example_params\<lparr>matrix_profile := Some (PyInt 0)\<rparr>", THEN conjunct2, THEN conjunct2,
      rule_format, OF z]
  note off = matrix_profile_is_optional [of example_libs ?col 2 example_params,
      THEN conjunct2, THEN conjunct2, rule_format, OF n]
  show ?thesis
    unfolding on zero off sw by simp
qed

subsection \<open>Row count\<close>




subsection \<open>The empty column\<close>



section \<open>Determinism\<close>





section \<open>Properties of \<^verbatim>\<open>get_feature_meta\<close>\<close>

lemma max_length_loop_Max:
  "max_length_loop tok column m = Max (insert m ((\<lambda>ts. int (length (tok ts))) ` set column))"
proof (induction column arbitrary: m)
  case Nil
  then show ?case by simp
next
  case (Cons ts rest)
  let ?S = "(\<lambda>ts. int (length (tok ts))) ` set rest"
  have "Max (insert (max m (int (length (tok ts)))) ?S)
          = Max (insert m (insert (int (length (tok ts))) ?S))"
    by (cases "?S = {}") (simp_all add: max.assoc)
  with Cons.IH [of "max m (int (length (tok ts)))"] show ?case by (simp add: Let_def)
qed

text \<open>
  Claim C8, as amended. For a registered tokenizer, \<^verbatim>\<open>get_feature_meta\<close> returns the
  dictionary with the single entry \<^verbatim>\<open>'max_timeseries_length'\<close>, whose value is the minimum
  of \<^verbatim>\<open>timeseries_length_limit\<close> and of the longest tokenized length in the column (0 for
  the empty column). The value never exceeds the limit; for the empty column it is
  \<open>min limit 0\<close>, which is 0 whenever the limit is not negative.
\<close>

theorem get_feature_meta_min:
  assumes "get_from_registry L (tokenizer params) = Some tok"
  shows "\<exists>v. get_feature_meta L column params = Inr [''max_timeseries_length'' \<mapsto> v]
           \<and> v = min (timeseries_length_limit params)
                     (Max (insert 0 ((\<lambda>ts. int (length (tok ts))) ` set column)))
           \<and> v \<le> timeseries_length_limit params
           \<and> (column = [] \<longrightarrow> v = min (timeseries_length_limit params) 0)
           \<and> (column = [] \<and> 0 \<le> timeseries_length_limit params \<longrightarrow> v = 0)"
  using assms by (auto simp: get_feature_meta_def Let_def max_length_loop_Max)

theorem get_feature_meta_min_witness:
  "\<exists>v. get_feature_meta example_libs [''1 2 3'', ''4''] example_params
          = Inr [''max_timeseries_length'' \<mapsto> v] \<and> v = 3 \<and> v \<le> 256"
proof -
  have h: "get_from_registry example_libs (tokenizer example_params) = Some (split_spaces [])"
    by (simp add: example_libs_def example_params_fields)
  from get_feature_meta_min [OF h, of "[''1 2 3'', ''4'']"]
  show ?thesis by (auto simp: example_params_fields)
qed

text \<open>
  With a negative limit the empty column does not yield 0: the limit itself comes back.
\<close>

theorem get_feature_meta_empty_counterexample:
  "\<exists>meta. get_feature_meta example_libs [] (example_params\<lparr>timeseries_length_limit := - 1\<rparr>)
             = Inr meta
     \<and> meta ''max_timeseries_length'' = Some (- 1)
     \<and> meta ''max_timeseries_length'' \<noteq> Some 0"
  by (simp add: get_feature_meta_def example_libs_def example_params_fields)

section \<open>\<^verbatim>\<open>feature_data\<close>: the matrix and the metadata\<close>

text \<open>
  What a successful call leaves behind: the matrix is as wide as the value
  \<^verbatim>\<open>metadata['max_timeseries_length']\<close> held on entry, while the value stored on exit is the
  larger of that value and the window size.
\<close>

lemma build_matrix_width:
  assumes "build_matrix L timeseries name length_limit pv side = Inr M"
  shows "0 \<le> length_limit \<and> (\<forall>row\<in>set M. length row = nat length_limit)"
proof -
  from build_matrix_Inr [OF assms] obtain tok where
    h: "get_from_registry L name = Some tok" "0 \<le> length_limit"
    "\<forall>ts\<in>set timeseries. ts_vector L tok pv ts \<noteq> None" by blast
  from build_matrix_rows [OF h, of side] assms h(2) show ?thesis
    by (auto simp: write_row_length)
qed

lemma feature_data_shape:
  assumes "feature_data L column metadata params gp = Inr (M, md, g)"
  shows "\<exists>limit. metadata ''max_timeseries_length'' = Some limit
           \<and> (\<forall>row\<in>set M. int (length row) = limit)
           \<and> md ''max_timeseries_length''
               = Some (max limit (case window_size params of None \<Rightarrow> 1 | Some s \<Rightarrow> s))"
proof -
  define s where "s = (case window_size params of None \<Rightarrow> 1 | Some s \<Rightarrow> s)"
  from assms obtain w limit where
    limit: "metadata ''max_timeseries_length'' = Some limit" and
    M: "build_matrix L w (tokenizer params) limit (padding_value params) (padding params) = Inr M" and
    md: "md = metadata(''max_timeseries_length'' \<mapsto> (if limit < s then s else limit))"
    unfolding feature_data_def s_def [symmetric] Let_def
    by (auto split: sum.splits option.splits)
  from build_matrix_width [OF M] have "\<forall>row\<in>set M. int (length row) = limit" by simp
  with limit md show ?thesis unfolding s_def by (auto simp: max_def)
qed

text \<open>
  Claim C4. The claim asks that the matrix be as wide as the stored
  \<^verbatim>\<open>metadata['max_timeseries_length']\<close> after the call. \<^verbatim>\<open>feature_data\<close> raises its local
  \<^verbatim>\<open>max_timeseries_length\<close> to the window size and stores it, but builds the matrix from
  the value the dictionary still holds. On a column of three single values, with the
  metadata \<^verbatim>\<open>get_feature_meta\<close> computes for it (1) and a window of 2, the matrix has one
  column and the metadata says 2.
\<close>

theorem feature_data_width_differs_from_metadata:
  "\<exists>M md g. feature_data example_libs [''1'', ''2'', ''3''] [''max_timeseries_length'' \<mapsto> 1]
               (example_params\<lparr>window_size := Some 2\<rparr>) Map.empty = Inr (M, md, g)
     \<and> M = [[0], [1], [1]]
     \<and> list_all (\<lambda>row. length row = 1) M
     \<and> md ''max_timeseries_length'' = Some 2"
  by (simp add: feature_data_def eval_windows_2 example_params_fields eval_matrix_1)

end
